theory Spec2Isabelle
  imports Complex_Main "HOL-Library.Word"
begin

section \<open>Data model of compress.py\<close>

text \<open>
  The embedding follows \<^verbatim>\<open>src/compress.py\<close>, class \<^verbatim>\<open>ImageCompressor\<close>.
  Python integers are \<open>int\<close>. The configured size in megabytes is an integer or a float
  in Python; it is idealised as a rational number, and so are the derived target size and
  the savings percentage (no claim depends on floating-point rounding). File contents and
  encoded buffers are byte lists.
\<close>

type_synonym bytes = "8 word list"

text \<open>
  A decoded Pillow image, as far as the program looks at it: \<^verbatim>\<open>width\<close>, \<^verbatim>\<open>height\<close>,
  \<^verbatim>\<open>mode\<close>, \<^verbatim>\<open>format\<close>, and the pixel data, which only the library interprets.
\<close>

record image =
  width :: int
  height :: int
  mode :: string
  format :: string
  raster :: "nat list"

text \<open>
  The configuration dictionary \<^verbatim>\<open>self.config\<close>, restricted to the keys the per-image
  pipeline reads. \<^verbatim>\<open>load_config\<close> returns the parsed JSON object as it is, so a key
  may be absent: \<open>None\<close> is a missing key, and reading it raises \<^verbatim>\<open>KeyError\<close>.
\<close>

record config =
  max_file_size_mb :: "rat option"
  quality_jpeg :: "int option"
  quality_png :: "int option"
  resize_enabled :: "bool option"
  max_width :: "int option"
  max_height :: "int option"

text \<open>
  Exceptions, all of them subclasses of Python's \<^verbatim>\<open>Exception\<close>. \<open>NameError\<close>,
  \<open>KeyError\<close> and \<open>ZeroDivisionError\<close> are raised by the interpreter while it runs the
  program's own statements; \<open>SameFileError\<close> by \<^verbatim>\<open>shutil.copy2\<close>; \<open>External\<close> is any
  exception that comes out of Pillow or the operating system, carried by its message.
\<close>

datatype py_exn =
    NameError string
  | KeyError string
  | ZeroDivisionError
  | SameFileError string string
  | External string

definition quoted :: "string \<Rightarrow> string" where
  "quoted s = CHR 0x27 # s @ [CHR 0x27]"

text \<open>\<^verbatim>\<open>str(e)\<close>, the message the error result carries.\<close>

fun str_exn :: "py_exn \<Rightarrow> string" where
  "str_exn (NameError n) = ''name '' @ quoted n @ '' is not defined''"
| "str_exn (KeyError k) = quoted k"
| "str_exn ZeroDivisionError = ''division by zero''"
| "str_exn (SameFileError a b) = quoted a @ '' and '' @ quoted b @ '' are the same file''"
| "str_exn (External m) = m"

text \<open>
  The dictionary returned by \<^verbatim>\<open>compress_image\<close>, one constructor per \<^verbatim>\<open>status\<close>:
  \<open>Skipped original_size compressed_size savings_percent format\<close>,
  \<open>Compressed original_size compressed_size savings_percent format original_format\<close>
  and \<open>Error error\<close>.
\<close>

datatype result =
    Skipped int int rat string
  | Compressed int int rat string string
  | Error string

section \<open>The outside world\<close>

text \<open>
  The calls that leave the program, in the order they are made. The log is how the
  theorems below say that an encode did or did not happen.
\<close>

datatype call =
    Open string
  | GetSize string
  | Copy2 string string
  | Thumbnail int int
  | Convert string
  | Save string "int option"
  | WriteFile string

text \<open>
  The file system. \<open>file_id s p\<close> identifies the file that the path \<open>p\<close> names: two
  paths have the same identifier exactly when \<^verbatim>\<open>os.path.samefile\<close> holds of them, as
  for two spellings of one path or a link and its target. \<open>files\<close> maps a file to its
  contents, or to the message of the \<^verbatim>\<open>OSError\<close> that reading it raises (no such file,
  permission denied). Which file a path names does not change during a call.
\<close>

record world =
  file_id :: "string \<Rightarrow> string"
  files :: "string \<Rightarrow> string + bytes"
  calls :: "call list"

text \<open>
  Pillow and the operating system are not part of the repository; they enter as
  parameters. Each function returns the value of the call or the message of the exception
  it raises. \<open>encode img fmt q\<close> is \<^verbatim>\<open>img.save(buffer, format=fmt, quality=q, optimize=True)\<close>
  into a fresh \<^verbatim>\<open>BytesIO\<close>, \<open>q = None\<close> when no quality is passed; the buffer's
  \<^verbatim>\<open>tell()\<close> after the save is the length of its \<^verbatim>\<open>getvalue()\<close>.
\<close>

record lib =
  decode :: "bytes \<Rightarrow> string + image"
  thumbnail :: "image \<Rightarrow> int \<Rightarrow> int \<Rightarrow> string + image"
  convert :: "image \<Rightarrow> string \<Rightarrow> string + image"
  encode :: "image \<Rightarrow> string \<Rightarrow> int option \<Rightarrow> string + bytes"
  write_error :: "string \<Rightarrow> string option"

type_synonym 'a prog = "world \<Rightarrow> (py_exn + 'a) \<times> world"

definition ret :: "'a \<Rightarrow> 'a prog" where
  "ret x s = (Inr x, s)"

definition raise :: "py_exn \<Rightarrow> 'a prog" where
  "raise e s = (Inl e, s)"

definition bind_prog :: "'a prog \<Rightarrow> ('a \<Rightarrow> 'b prog) \<Rightarrow> 'b prog" where
  "bind_prog m f s = (case m s of (Inl e, s') \<Rightarrow> (Inl e, s') | (Inr x, s') \<Rightarrow> f x s')"

definition external :: "call \<Rightarrow> string + 'a \<Rightarrow> 'a prog" where
  "external c r s =
     ((case r of Inl m \<Rightarrow> Inl (External m) | Inr x \<Rightarrow> Inr x), s\<lparr>calls := calls s @ [c]\<rparr>)"

text \<open>\<^verbatim>\<open>self.config[key]\<close>.\<close>

definition config_get :: "'a option \<Rightarrow> string \<Rightarrow> 'a prog" where
  "config_get v key = (case v of None \<Rightarrow> raise (KeyError key) | Some x \<Rightarrow> ret x)"

text \<open>
  The names bound in the module's global namespace by lines 1 to 9 and 223 of the source.
  A name a function uses without binding it locally is looked up here.
\<close>

definition module_globals :: "string list" where
  "module_globals =
     [''os'', ''json'', ''argparse'', ''Path'', ''Image'', ''ImageOps'', ''shutil'', ''tqdm'',
      ''ImageCompressor'', ''main'']"

definition lookup_global :: "string list \<Rightarrow> string \<Rightarrow> unit prog" where
  "lookup_global G n = (if n \<in> set G then ret () else raise (NameError n))"

definition image_open :: "lib \<Rightarrow> string \<Rightarrow> image prog" where
  "image_open L path s =
     external (Open path)
       (case files s (file_id s path) of Inl m \<Rightarrow> Inl m | Inr b \<Rightarrow> decode L b) s"

definition getsize :: "string \<Rightarrow> int prog" where
  "getsize path s =
     external (GetSize path)
       (case files s (file_id s path) of
          Inl m \<Rightarrow> Inl m
        | Inr b \<Rightarrow> Inr (int (length b))) s"

text \<open>
  \<^verbatim>\<open>shutil.copy2(src, dst)\<close>: refuses to copy a file onto itself, whatever the two
  paths are that name it.
\<close>

definition copy2 :: "lib \<Rightarrow> string \<Rightarrow> string \<Rightarrow> unit prog" where
  "copy2 L src dst s =
     (let s1 = s\<lparr>calls := calls s @ [Copy2 src dst]\<rparr> in
      if file_id s src = file_id s dst then (Inl (SameFileError src dst), s1)
      else case files s (file_id s src) of
             Inl m \<Rightarrow> (Inl (External m), s1)
           | Inr b \<Rightarrow>
               (case write_error L dst of
                  Some m \<Rightarrow> (Inl (External m), s1)
                | None \<Rightarrow> (Inr (), s1\<lparr>files := (files s1)(file_id s dst := Inr b)\<rparr>)))"

text \<open>\<^verbatim>\<open>with open(path, 'wb') as f: f.write(data)\<close>.\<close>

definition write_file :: "lib \<Rightarrow> string \<Rightarrow> bytes \<Rightarrow> unit prog" where
  "write_file L path data s =
     (let s1 = s\<lparr>calls := calls s @ [WriteFile path]\<rparr> in
      case write_error L path of
        Some m \<Rightarrow> (Inl (External m), s1)
      | None \<Rightarrow> (Inr (), s1\<lparr>files := (files s1)(file_id s path := Inr data)\<rparr>))"

definition save_image :: "lib \<Rightarrow> image \<Rightarrow> string \<Rightarrow> int option \<Rightarrow> bytes prog" where
  "save_image L img fmt q = external (Save fmt q) (encode L img fmt q)"

section \<open>The operations\<close>

text \<open>Lines 56 to 57.\<close>

definition calculate_target_size :: "int \<Rightarrow> rat \<Rightarrow> rat" where
  "calculate_target_size original_size max_size_mb = max_size_mb * 1024 * 1024"

text \<open>Lines 59 to 64.\<close>

definition resize_image :: "lib \<Rightarrow> image \<Rightarrow> int \<Rightarrow> int \<Rightarrow> image prog" where
  "resize_image L img max_w max_h =
     (if width img \<le> max_w \<and> height img \<le> max_h then ret img
      else external (Thumbnail max_w max_h) (thumbnail L img max_w max_h))"

text \<open>
  Lines 76 to 80: the \<^verbatim>\<open>while\<close> loop of \<^verbatim>\<open>compress_jpeg\<close>. \<open>temp_buffer\<close> is the
  content of the current buffer, whose length is \<^verbatim>\<open>current_size\<close>.
\<close>

function jpeg_loop ::
  "string list \<Rightarrow> lib \<Rightarrow> image \<Rightarrow> rat \<Rightarrow> bytes \<Rightarrow> int \<Rightarrow> (bytes \<times> int) prog" where
  "jpeg_loop G L img target temp_buffer current_quality s =
     (if of_nat (length temp_buffer) > target \<and> current_quality > 10 then
        (case lookup_global G ''BytesIO'' s of
           (Inl e, s1) \<Rightarrow> (Inl e, s1)
         | (Inr _, s1) \<Rightarrow>
             (case save_image L img ''JPEG'' (Some (current_quality - 5)) s1 of
                (Inl e, s2) \<Rightarrow> (Inl e, s2)
              | (Inr buf, s2) \<Rightarrow> jpeg_loop G L img target buf (current_quality - 5) s2))
      else (Inr (temp_buffer, current_quality), s))"
  by pat_completeness auto
termination
  by (relation "measure (\<lambda>(G, L, img, t, b, q, s). nat (q - 10))") auto

declare jpeg_loop.simps [simp del]

text \<open>
  Lines 66 to 82. \<open>G\<close> is the module namespace in which the call runs: \<^verbatim>\<open>BytesIO\<close> is
  not bound inside the function, so line 70 looks it up there.
\<close>

definition compress_jpeg ::
  "string list \<Rightarrow> lib \<Rightarrow> image \<Rightarrow> int \<Rightarrow> rat \<Rightarrow> (bytes \<times> int) prog" where
  "compress_jpeg G L img quality target =
     bind_prog (if mode img \<noteq> ''RGB'' then external (Convert ''RGB'') (convert L img ''RGB'')
                else ret img) (\<lambda>img.
     bind_prog (lookup_global G ''BytesIO'') (\<lambda>_.
     bind_prog (save_image L img ''JPEG'' (Some quality)) (\<lambda>temp_buffer.
     jpeg_loop G L img target temp_buffer quality)))"

text \<open>Lines 84 to 103. \<^verbatim>\<open>BytesIO\<close> is imported inside the function.\<close>

definition compress_png :: "lib \<Rightarrow> image \<Rightarrow> int \<Rightarrow> rat \<Rightarrow> (bytes \<times> string) prog" where
  "compress_png L img quality target =
     bind_prog (save_image L img ''PNG'' None) (\<lambda>temp_buffer.
     if of_nat (length temp_buffer) > target then
       bind_prog (if mode img \<noteq> ''RGB'' then external (Convert ''RGB'') (convert L img ''RGB'')
                  else ret img) (\<lambda>image_rgb.
       bind_prog (save_image L image_rgb ''JPEG'' (Some quality)) (\<lambda>jpeg_buffer.
       if length jpeg_buffer < length temp_buffer then ret (jpeg_buffer, ''JPEG'')
       else ret (temp_buffer, ''PNG'')))
     else ret (temp_buffer, ''PNG''))"

text \<open>Line 150: true division of two integers.\<close>

definition savings :: "int \<Rightarrow> int \<Rightarrow> rat prog" where
  "savings original compressed =
     (if original = 0 then raise ZeroDivisionError
      else ret (of_int (original - compressed) / of_int original * 100))"

text \<open>Lines 108 to 159: the body of the \<^verbatim>\<open>try\<close> statement.\<close>

definition compress_image_body ::
  "string list \<Rightarrow> lib \<Rightarrow> config \<Rightarrow> string \<Rightarrow> string \<Rightarrow> result prog" where
  "compress_image_body G L cfg input_path output_path =
     bind_prog (image_open L input_path) (\<lambda>img.
     let original_format = format img in
     bind_prog (getsize input_path) (\<lambda>original_size.
     bind_prog (config_get (max_file_size_mb cfg) ''max_file_size_mb'') (\<lambda>max_mb.
     let target = calculate_target_size original_size max_mb in
     if of_int original_size \<le> target then
       bind_prog (copy2 L input_path output_path) (\<lambda>_.
       ret (Skipped original_size original_size 0 original_format))
     else
       bind_prog (config_get (resize_enabled cfg) ''resize_enabled'') (\<lambda>enabled.
       bind_prog (if enabled then
                    bind_prog (config_get (max_width cfg) ''max_width'') (\<lambda>mw.
                    bind_prog (config_get (max_height cfg) ''max_height'') (\<lambda>mh.
                    resize_image L img mw mh))
                  else ret img) (\<lambda>img.
       bind_prog (if original_format \<in> set [''JPEG'', ''JPG''] then
                    bind_prog (config_get (quality_jpeg cfg) ''quality_jpeg'') (\<lambda>q.
                    bind_prog (compress_jpeg G L img q target) (\<lambda>(compressed_data, quality_used).
                    ret (compressed_data, ''JPEG'')))
                  else if original_format = ''PNG'' then
                    bind_prog (config_get (quality_png cfg) ''quality_png'') (\<lambda>q.
                    compress_png L img q target)
                  else
                    bind_prog (save_image L img original_format None) (\<lambda>compressed_data.
                    ret (compressed_data, original_format))) (\<lambda>(compressed_data, output_format).
       bind_prog (write_file L output_path compressed_data) (\<lambda>_.
       bind_prog (getsize output_path) (\<lambda>compressed_size.
       bind_prog (savings original_size compressed_size) (\<lambda>sv.
       ret (Compressed original_size compressed_size sv output_format original_format))))))))))"

text \<open>Lines 105 to 165: \<^verbatim>\<open>except Exception as e\<close> turns every exception into a result.\<close>

definition compress_image ::
  "string list \<Rightarrow> lib \<Rightarrow> config \<Rightarrow> string \<Rightarrow> string \<Rightarrow> world \<Rightarrow> result \<times> world" where
  "compress_image G L cfg input_path output_path s =
     (case compress_image_body G L cfg input_path output_path s of
        (Inl e, s') \<Rightarrow> (Error (str_exn e), s')
      | (Inr r, s') \<Rightarrow> (r, s'))"

section \<open>The library's thumbnail and a sample library\<close>

text \<open>
  Modelled from the spec: \<^verbatim>\<open>Image.thumbnail\<close> belongs to Pillow and is not in the
  repository. The spec's words for it are: scale down preserving aspect ratio so that both
  dimensions fit within the bounds, never upscale. \<open>thumbnail_contract\<close> states that
  about the library parameter; \<open>thumbnail_model\<close> is one function that meets it, scaling
  by the tighter of the two bounds and rounding the other side to the nearest pixel, at
  least one.
\<close>

definition aspect_within_rounding :: "image \<Rightarrow> image \<Rightarrow> bool" where
  "aspect_within_rounding a b =
     (\<bar>width b * height a - height b * width a\<bar> \<le> max (width a) (height a))"

definition thumbnail_contract :: "lib \<Rightarrow> bool" where
  "thumbnail_contract L =
     (\<forall>img max_w max_h img'. thumbnail L img max_w max_h = Inr img' \<longrightarrow>
        width img' \<le> max_w \<and> height img' \<le> max_h
        \<and> width img' \<le> width img \<and> height img' \<le> height img
        \<and> aspect_within_rounding img img')"

definition round_div :: "int \<Rightarrow> int \<Rightarrow> int" where
  "round_div a b = (2 * a + b) div (2 * b)"

definition thumbnail_size :: "int \<Rightarrow> int \<Rightarrow> int \<Rightarrow> int \<Rightarrow> int \<times> int" where
  "thumbnail_size w h max_w max_h =
     (if max_h * w \<le> max_w * h then (max 1 (round_div (max_h * w) h), max_h)
      else (max_w, max 1 (round_div (max_w * h) w)))"

definition thumbnail_model :: "image \<Rightarrow> int \<Rightarrow> int \<Rightarrow> string + image" where
  "thumbnail_model img max_w max_h =
     (if width img < 1 \<or> height img < 1 \<or> max_w < 1 \<or> max_h < 1
      then Inl ''height and width must be > 0''
      else if width img \<le> max_w \<and> height img \<le> max_h then Inr img
      else case thumbnail_size (width img) (height img) max_w max_h of
             (w, h) \<Rightarrow> Inr (img\<lparr>width := w, height := h\<rparr>))"

text \<open>
  A small library and file system on which the theorems are run. The decoder rejects an
  empty file and one that starts with a zero byte, and otherwise reads the format off the
  first byte; an encode without quality returns the raster, an encode at
  quality \<open>q\<close> returns \<open>q div 10 + 1\<close> bytes, converting a CMYK image fails, the TIFF
  encoder fails, and one output path cannot be written. In the sample world the path
  \<open>in/./a.png\<close> is a second spelling of \<open>in/a.png\<close>.
\<close>

definition demo_lib :: lib where
  "demo_lib =
     \<lparr>decode = (\<lambda>b. case b of
                  [] \<Rightarrow> Inl ''cannot identify image file''
                | x # _ \<Rightarrow>
                    if x = 0 then Inl ''cannot identify image file''
                    else
                    Inr \<lparr>width = 4, height = 3,
                         mode = (if x = 0x89 then ''RGBA'' else ''RGB''),
                         format = (if x = 0xFF then ''JPEG'' else if x = 0x89 then ''PNG''
                                   else if x = 0x42 then ''BMP'' else ''TIFF''),
                         raster = map unat b\<rparr>),
      thumbnail = thumbnail_model,
      convert = (\<lambda>img m. if mode img = ''CMYK'' then Inl ''image file is truncated''
                          else Inr (img\<lparr>mode := m\<rparr>)),
      encode = (\<lambda>img fmt q.
                  if fmt = ''TIFF'' then Inl ''encoder error''
                  else case q of
                         None \<Rightarrow> Inr (map of_nat (raster img))
                       | Some q \<Rightarrow> if q < 0 then Inl ''bad quality''
                                   else Inr (replicate (Suc (nat q div 10)) 0)),
      write_error = (\<lambda>p. if p = ''locked/a.png'' then Some ''Permission denied'' else None)\<rparr>"

definition demo_jpeg :: image where
  "demo_jpeg =
     \<lparr>width = 4, height = 3, mode = ''RGB'', format = ''JPEG'', raster = [255, 216, 255, 224]\<rparr>"

definition demo_cmyk :: image where
  "demo_cmyk =
     \<lparr>width = 4, height = 3, mode = ''CMYK'', format = ''JPEG'', raster = [255, 216, 255, 224]\<rparr>"

definition demo_png :: image where
  "demo_png =
     \<lparr>width = 4, height = 3, mode = ''RGBA'', format = ''PNG'', raster = [137, 80, 78, 71, 1, 2]\<rparr>"

definition demo_world :: world where
  "demo_world =
     \<lparr>file_id = (\<lambda>p. if p = ''in/./a.png'' then ''in/a.png'' else p),
      files = (\<lambda>p. if p = ''in/a.png'' then Inr [0x89, 80, 78, 71, 1, 2]
                    else if p = ''in/b.jpg'' then Inr [0xFF, 0xD8, 0xFF, 0xE0]
                    else if p = ''in/c.bmp'' then Inr [0x42, 0x4D, 7]
                    else if p = ''in/d.tif'' then Inr [0x49, 0x49, 42, 0]
                    else if p = ''in/corrupt.png'' then Inr [0, 80, 78]
                    else if p = ''in/empty.png'' then Inr []
                    else Inl ''No such file or directory''),
      calls = []\<rparr>"

definition demo_config :: "rat \<Rightarrow> int \<Rightarrow> config" where
  "demo_config mb q =
     \<lparr>max_file_size_mb = Some mb, quality_jpeg = Some q, quality_png = Some q,
      resize_enabled = Some False, max_width = Some 1920, max_height = Some 1080\<rparr>"

text \<open>The same library with a decoder that accepts every file, the empty one included.\<close>

definition raw_lib :: lib where
  "raw_lib =
     demo_lib\<lparr>decode := (\<lambda>b. Inr \<lparr>width = 1, height = 1, mode = ''L'', format = ''RAW'',
                                    raster = map unat b\<rparr>)\<rparr>"

text \<open>A program that never raises \<^verbatim>\<open>ZeroDivisionError\<close>, whatever the world it starts in.\<close>

definition never_zero_div :: "'a prog \<Rightarrow> bool" where
  "never_zero_div m = (\<forall>s. fst (m s) \<noteq> Inl ZeroDivisionError)"

section \<open>Basic facts\<close>

lemmas prog_defs = ret_def raise_def bind_prog_def external_def config_get_def
  lookup_global_def save_image_def

lemmas run_defs = compress_image_def compress_image_body_def compress_png_def
  resize_image_def write_file_def copy2_def image_open_def getsize_def savings_def
  calculate_target_size_def prog_defs Let_def

lemmas demo_defs = demo_lib_def demo_world_def demo_config_def

section \<open>Budget calculator\<close>

text \<open>
  Claim C7. \<^verbatim>\<open>calculate_target_size\<close> returns exactly \<open>max_size_mb * 1024 * 1024\<close>,
  whatever the original size is: two calls with the same \<open>max_size_mb\<close> and different
  original sizes give the same target. The function is pure: it takes no world and returns
  none.
\<close>

theorem calculate_target_size_flat:
  "calculate_target_size original_size max_size_mb = max_size_mb * 1024 * 1024
   \<and> calculate_target_size original_size max_size_mb = calculate_target_size other_size max_size_mb"
  by (simp add: calculate_target_size_def)

section \<open>Resizer\<close>

lemma round_div_near: "0 < b \<Longrightarrow> \<bar>round_div a b * b - a\<bar> * 2 \<le> b"
proof -
  assume b: "0 < b"
  define r where "r = (2 * a + b) div (2 * b)"
  define m where "m = (2 * a + b) mod (2 * b)"
  have e: "2 * b * r + m = 2 * a + b" by (simp add: r_def m_def)
  have m: "0 \<le> m \<and> m < 2 * b" using b by (simp add: m_def)
  have "2 * (r * b - a) = b - m" using e by (simp add: algebra_simps)
  with m have "\<bar>r * b - a\<bar> * 2 \<le> b" by linarith
  then show ?thesis by (simp add: round_div_def r_def)
qed

lemma round_div_le: "0 < b \<Longrightarrow> a \<le> c * b \<Longrightarrow> round_div a b \<le> c"
proof -
  assume b: "0 < b" and a: "a \<le> c * b"
  have "(2 * a + b) div (2 * b) \<le> (2 * (c * b) + b) div (2 * b)"
    using a b by (intro zdiv_mono1) auto
  also have "2 * (c * b) + b = b + c * (2 * b)" by (simp add: algebra_simps)
  also have "(b + c * (2 * b)) div (2 * b) = c" using b by simp
  finally show ?thesis by (simp add: round_div_def)
qed

lemma abs_half_le: "\<bar>d::int\<bar> * 2 \<le> h \<Longrightarrow> \<bar>d\<bar> \<le> h"
  by linarith

lemma abs_under: "(1::int) \<le> a \<Longrightarrow> a \<le> h \<Longrightarrow> \<bar>h - a\<bar> \<le> h"
  by linarith

lemma nonpos_near: "\<bar>p - a\<bar> * 2 \<le> h \<Longrightarrow> p \<le> 0 \<Longrightarrow> (a::int) \<le> h"
  by arith

lemma scale_side:
  assumes w: "1 \<le> w" and h: "1 \<le> h" and mw: "1 \<le> mw" and mh: "1 \<le> mh"
    and tight: "mh * w \<le> mw * h" and over: "\<not> (w \<le> mw \<and> h \<le> mh)"
  shows "max 1 (round_div (mh * w) h) \<le> mw \<and> max 1 (round_div (mh * w) h) \<le> w \<and> mh < h
         \<and> \<bar>max 1 (round_div (mh * w) h) * h - mh * w\<bar> \<le> h"
proof -
  define r where "r = round_div (mh * w) h"
  have hpos: "0 < h" using h by simp
  have lt: "mh < h"
  proof (rule ccontr)
    assume "\<not> mh < h"
    then have hm: "h \<le> mh" by simp
    then have "h * w \<le> mh * w" using w by (intro mult_right_mono) auto
    with tight have "w * h \<le> mw * h" by (simp add: mult.commute)
    with hpos have "w \<le> mw" by simp
    with hm over show False by simp
  qed
  have r_mw: "r \<le> mw" unfolding r_def using hpos tight by (rule round_div_le)
  have "mh * w \<le> w * h" using lt w by (simp add: mult.commute mult_left_mono)
  with hpos have r_w: "r \<le> w" unfolding r_def by (rule round_div_le)
  have near: "\<bar>r * h - mh * w\<bar> * 2 \<le> h" unfolding r_def using hpos by (rule round_div_near)
  have apos: "1 \<le> mh * w" using mult_mono[of 1 mh 1 w] mh w by simp
  have asp: "\<bar>max 1 r * h - mh * w\<bar> \<le> h"
  proof (cases "1 \<le> r")
    case True
    have "\<bar>r * h - mh * w\<bar> \<le> h" using near by (rule abs_half_le)
    with True show ?thesis by (simp add: max_def)
  next
    case False
    then have r0: "r \<le> 0" by simp
    then have "r * h \<le> 0" using hpos by (simp add: mult_nonpos_nonneg)
    with near have "mh * w \<le> h" by (rule nonpos_near)
    with apos have "\<bar>h - mh * w\<bar> \<le> h" by (rule abs_under)
    with False show ?thesis by (simp add: max_def)
  qed
  from r_mw r_w mw w lt asp show ?thesis unfolding r_def by simp
qed

lemma thumbnail_size_fits:
  assumes "1 \<le> w" "1 \<le> h" "1 \<le> mw" "1 \<le> mh" "\<not> (w \<le> mw \<and> h \<le> mh)"
    and "thumbnail_size w h mw mh = (w', h')"
  shows "w' \<le> mw \<and> h' \<le> mh \<and> w' \<le> w \<and> h' \<le> h \<and> \<bar>w' * h - h' * w\<bar> \<le> max w h"
proof (cases "mh * w \<le> mw * h")
  case True
  from scale_side[OF assms(1-4) True assms(5)] assms(6) True show ?thesis
    by (auto simp: thumbnail_size_def)
next
  case False
  then have "mw * h \<le> mh * w" by simp
  from scale_side[OF assms(2,1,4,3) this] assms(5,6) False show ?thesis
    by (auto simp: thumbnail_size_def abs_minus_commute)
qed

lemma thumbnail_model_contract: "thumbnail_contract demo_lib"
  unfolding thumbnail_contract_def
proof (intro allI impI)
  fix img max_w max_h img'
  assume a: "thumbnail demo_lib img max_w max_h = Inr img'"
  show "width img' \<le> max_w \<and> height img' \<le> max_h \<and> width img' \<le> width img
        \<and> height img' \<le> height img \<and> aspect_within_rounding img img'"
  proof (cases "width img \<le> max_w \<and> height img \<le> max_h")
    case True
    with a show ?thesis
      by (auto simp: demo_lib_def thumbnail_model_def aspect_within_rounding_def mult.commute split: if_splits)
  next
    case False
    obtain w h where wh: "thumbnail_size (width img) (height img) max_w max_h = (w, h)"
      by (cases "thumbnail_size (width img) (height img) max_w max_h")
    with a False have ok: "1 \<le> width img" "1 \<le> height img" "1 \<le> max_w" "1 \<le> max_h"
      and r: "img' = img\<lparr>width := w, height := h\<rparr>"
      by (auto simp: demo_lib_def thumbnail_model_def split: if_splits)
    from thumbnail_size_fits[OF ok False wh] r show ?thesis
      by (simp add: aspect_within_rounding_def)
  qed
qed

text \<open>
  Claim C8. When the image is within both bounds, \<^verbatim>\<open>resize_image\<close> returns it unchanged
  and calls nothing. Otherwise it returns what the library's \<^verbatim>\<open>thumbnail\<close> makes of it
  for exactly these bounds; for a library whose thumbnail meets \<open>thumbnail_contract\<close>, the
  returned image fits both bounds, keeps the aspect ratio within rounding, and has neither
  side larger than before.
\<close>

theorem resize_image_contract:
  "(width img \<le> max_w \<and> height img \<le> max_h \<longrightarrow>
      resize_image L img max_w max_h s = (Inr img, s))
   \<and> (thumbnail_contract L \<and> \<not> (width img \<le> max_w \<and> height img \<le> max_h)
        \<and> fst (resize_image L img max_w max_h s) = Inr img' \<longrightarrow>
      width img' \<le> max_w \<and> height img' \<le> max_h \<and> aspect_within_rounding img img'
      \<and> width img' \<le> width img \<and> height img' \<le> height img)"
  by (auto simp: resize_image_def prog_defs thumbnail_contract_def split: sum.splits)

theorem resize_image_contract_witness:
  "resize_image demo_lib demo_jpeg 1920 1080 demo_world = (Inr demo_jpeg, demo_world)
   \<and> fst (resize_image demo_lib (demo_jpeg\<lparr>width := 4000, height := 3000\<rparr>) 1920 1080 demo_world)
       = Inr (demo_jpeg\<lparr>width := 1440, height := 1080\<rparr>)
   \<and> aspect_within_rounding (demo_jpeg\<lparr>width := 4000, height := 3000\<rparr>)
        (demo_jpeg\<lparr>width := 1440, height := 1080\<rparr>)"
proof -
  have r: "fst (resize_image demo_lib (demo_jpeg\<lparr>width := 4000, height := 3000\<rparr>) 1920 1080
             demo_world) = Inr (demo_jpeg\<lparr>width := 1440, height := 1080\<rparr>)"
    by (simp add: resize_image_def prog_defs demo_lib_def demo_jpeg_def thumbnail_model_def
        thumbnail_size_def round_div_def)
  have over: "\<not> (width (demo_jpeg\<lparr>width := 4000, height := 3000\<rparr>) \<le> 1920
              \<and> height (demo_jpeg\<lparr>width := 4000, height := 3000\<rparr>) \<le> 1080)"
    by simp
  have within: "width demo_jpeg \<le> 1920 \<and> height demo_jpeg \<le> 1080"
    by (simp add: demo_jpeg_def)
  from resize_image_contract[of demo_jpeg 1920 1080 demo_lib demo_world] within
  have a: "resize_image demo_lib demo_jpeg 1920 1080 demo_world = (Inr demo_jpeg, demo_world)"
    by blast
  from resize_image_contract[of "demo_jpeg\<lparr>width := 4000, height := 3000\<rparr>" 1920 1080 demo_lib
      demo_world "demo_jpeg\<lparr>width := 1440, height := 1080\<rparr>"]
    thumbnail_model_contract over r
  have "aspect_within_rounding (demo_jpeg\<lparr>width := 4000, height := 3000\<rparr>)
          (demo_jpeg\<lparr>width := 1440, height := 1080\<rparr>)"
    by blast
  with a r show ?thesis by blast
qed

section \<open>Fallback selector\<close>

text \<open>
  Claim C4. \<^verbatim>\<open>compress_png\<close> encodes losslessly first. If that encoding is within the
  target it is returned with the tag PNG and the log shows the PNG save alone: no convert,
  no lossy save. If it is over the target, the image is normalised to RGB where needed,
  saved as JPEG once, at the fallback quality, and the JPEG is returned exactly when it is
  strictly shorter than the PNG; the log shows that single lossy save and nothing after
  it. Whatever is returned is no longer than the lossless encoding, and a JPEG is returned
  only when the PNG was over the target.
\<close>

theorem compress_png_contract:
  "(encode L img ''PNG'' None = Inr png \<and> of_nat (length png) \<le> target \<longrightarrow>
      compress_png L img quality target s
        = (Inr (png, ''PNG''), s\<lparr>calls := calls s @ [Save ''PNG'' None]\<rparr>))
   \<and> (encode L img ''PNG'' None = Inr png \<and> target < of_nat (length png)
        \<and> (if mode img \<noteq> ''RGB'' then convert L img ''RGB'' else Inr img) = Inr rgb
        \<and> encode L rgb ''JPEG'' (Some quality) = Inr jpeg \<longrightarrow>
      fst (compress_png L img quality target s)
        = Inr (if length jpeg < length png then (jpeg, ''JPEG'') else (png, ''PNG''))
      \<and> calls (snd (compress_png L img quality target s))
        = calls s @ [Save ''PNG'' None]
            @ (if mode img \<noteq> ''RGB'' then [Convert ''RGB''] else [])
            @ [Save ''JPEG'' (Some quality)])
   \<and> (fst (compress_png L img quality target s) = Inr (data, tag) \<longrightarrow>
        (\<exists>png. encode L img ''PNG'' None = Inr png \<and> length data \<le> length png
           \<and> (tag = ''PNG'' \<and> data = png
               \<or> tag = ''JPEG'' \<and> length data < length png \<and> target < of_nat (length png))))"
  by (auto simp: compress_png_def prog_defs split: sum.splits if_splits prod.splits)

theorem compress_png_contract_witness:
  "compress_png demo_lib demo_png 85 6 demo_world
     = (Inr ([137, 80, 78, 71, 1, 2], ''PNG''),
        demo_world\<lparr>calls := calls demo_world @ [Save ''PNG'' None]\<rparr>)
   \<and> fst (compress_png demo_lib demo_png 30 5 demo_world) = Inr (replicate 4 0, ''JPEG'')
   \<and> calls (snd (compress_png demo_lib demo_png 30 5 demo_world))
       = [Save ''PNG'' None, Convert ''RGB'', Save ''JPEG'' (Some 30)]
   \<and> fst (compress_png demo_lib demo_png 85 5 demo_world)
       = Inr ([137, 80, 78, 71, 1, 2], ''PNG'')"
proof -
  have png: "encode demo_lib demo_png ''PNG'' None = Inr [137, 80, 78, 71, 1, 2]"
    by (simp add: demo_lib_def demo_png_def)
  have rgb: "(if mode demo_png \<noteq> ''RGB'' then convert demo_lib demo_png ''RGB''
              else Inr demo_png) = Inr (demo_png\<lparr>mode := ''RGB''\<rparr>)"
    by (simp add: demo_lib_def demo_png_def)
  have j30: "encode demo_lib (demo_png\<lparr>mode := ''RGB''\<rparr>) ''JPEG'' (Some 30)
               = Inr (replicate 4 0)"
    by (simp add: demo_lib_def)
  have j85: "encode demo_lib (demo_png\<lparr>mode := ''RGB''\<rparr>) ''JPEG'' (Some 85)
               = Inr (replicate 9 0)"
    by (simp add: demo_lib_def)
  have m: "mode demo_png \<noteq> ''RGB''" by (simp add: demo_png_def)
  have fits: "of_nat (length [137, 80, 78, 71, 1, 2 :: 8 word]) \<le> (6 :: rat)" by simp
  have over: "(5 :: rat) < of_nat (length [137, 80, 78, 71, 1, 2 :: 8 word])" by simp
  have c0: "calls demo_world = []" by (simp add: demo_world_def)
  from compress_png_contract[where L = demo_lib and img = demo_png
      and png = "[137, 80, 78, 71, 1, 2]" and target = 6 and quality = 85 and s = demo_world,
      THEN conjunct1] png fits
  have a: "compress_png demo_lib demo_png 85 6 demo_world
             = (Inr ([137, 80, 78, 71, 1, 2], ''PNG''),
                demo_world\<lparr>calls := calls demo_world @ [Save ''PNG'' None]\<rparr>)"
    by blast
  from compress_png_contract[where L = demo_lib and img = demo_png
      and png = "[137, 80, 78, 71, 1, 2]" and target = 5 and quality = 30 and s = demo_world
      and rgb = "demo_png\<lparr>mode := ''RGB''\<rparr>" and jpeg = "replicate 4 0",
      THEN conjunct2, THEN conjunct1] png over rgb j30
  have "fst (compress_png demo_lib demo_png 30 5 demo_world)
          = Inr (if length (replicate 4 (0 :: 8 word)) < length [137, 80, 78, 71, 1, 2 :: 8 word]
                 then (replicate 4 0, ''JPEG'') else ([137, 80, 78, 71, 1, 2], ''PNG''))
        \<and> calls (snd (compress_png demo_lib demo_png 30 5 demo_world))
          = calls demo_world @ [Save ''PNG'' None]
              @ (if mode demo_png \<noteq> ''RGB'' then [Convert ''RGB''] else [])
              @ [Save ''JPEG'' (Some 30)]"
    by blast
  with m c0
  have b: "fst (compress_png demo_lib demo_png 30 5 demo_world) = Inr (replicate 4 0, ''JPEG'')
           \<and> calls (snd (compress_png demo_lib demo_png 30 5 demo_world))
               = [Save ''PNG'' None, Convert ''RGB'', Save ''JPEG'' (Some 30)]"
    by simp
  from compress_png_contract[where L = demo_lib and img = demo_png
      and png = "[137, 80, 78, 71, 1, 2]" and target = 5 and quality = 85 and s = demo_world
      and rgb = "demo_png\<lparr>mode := ''RGB''\<rparr>" and jpeg = "replicate 9 0",
      THEN conjunct2, THEN conjunct1] png over rgb j85
  have "fst (compress_png demo_lib demo_png 85 5 demo_world)
          = Inr (if length (replicate 9 (0 :: 8 word)) < length [137, 80, 78, 71, 1, 2 :: 8 word]
                 then (replicate 9 0, ''JPEG'') else ([137, 80, 78, 71, 1, 2], ''PNG''))"
    by blast
  then have c: "fst (compress_png demo_lib demo_png 85 5 demo_world)
             = Inr ([137, 80, 78, 71, 1, 2], ''PNG'')"
    by simp
  from a b c show ?thesis by blast
qed

section \<open>Quality search\<close>

text \<open>
  The search that lines 70 to 82 spell out, in a namespace where \<^verbatim>\<open>BytesIO\<close> is bound:
  the loop stops as soon as the buffer fits or the quality is 10 or less, and otherwise
  re-encodes the same, already converted image at a quality lowered by 5.
\<close>

lemma jpeg_loop_stop:
  "\<not> (target < of_nat (length buf) \<and> 10 < q) \<Longrightarrow>
     jpeg_loop G L img target buf q s = (Inr (buf, q), s)"
  by (subst jpeg_loop.simps) (simp only: if_False)

lemma jpeg_loop_step:
  "''BytesIO'' \<in> set G \<Longrightarrow> target < of_nat (length buf) \<Longrightarrow> 10 < q \<Longrightarrow>
   encode L img ''JPEG'' (Some (q - 5)) = Inr buf' \<Longrightarrow>
     jpeg_loop G L img target buf q s
       = jpeg_loop G L img target buf' (q - 5)
           (s\<lparr>calls := calls s @ [Save ''JPEG'' (Some (q - 5))]\<rparr>)"
  by (subst jpeg_loop.simps) (simp add: prog_defs)

lemma compress_jpeg_bound_first_fit:
  "''BytesIO'' \<in> set G \<Longrightarrow> mode img = ''RGB'' \<Longrightarrow>
   encode L img ''JPEG'' (Some quality) = Inr buf \<Longrightarrow> of_nat (length buf) \<le> target \<Longrightarrow>
     compress_jpeg G L img quality target s
       = (Inr (buf, quality), s\<lparr>calls := calls s @ [Save ''JPEG'' (Some quality)]\<rparr>)"
  by (simp add: compress_jpeg_def prog_defs jpeg_loop_stop)

lemma compress_jpeg_shipped:
  "compress_jpeg module_globals L img quality target s =
     (if mode img = ''RGB'' then (Inl (NameError ''BytesIO''), s)
      else ((case convert L img ''RGB'' of
               Inl m \<Rightarrow> Inl (External m)
             | Inr rgb \<Rightarrow> Inl (NameError ''BytesIO'')),
            s\<lparr>calls := calls s @ [Convert ''RGB'']\<rparr>))"
  by (simp add: compress_jpeg_def prog_defs module_globals_def split: sum.splits)

lemma compress_jpeg_shipped_Inl:
  "\<exists>e s'. compress_jpeg module_globals L img quality target s = (Inl e, s') \<and> files s' = files s"
  by (simp add: compress_jpeg_shipped split: sum.splits)

text \<open>
  Claim C1 describes that search, but the module as shipped never reaches an encode: at
  start quality 85, with a target the first encoding would meet, the call raises
  \<^verbatim>\<open>NameError\<close> at line 70 with no library call made, where the claim has it return the
  bytes encoded at quality 85.
\<close>

theorem compress_jpeg_as_shipped_example:
  "compress_jpeg module_globals demo_lib demo_jpeg 85 1048576 demo_world
     = (Inl (NameError ''BytesIO''), demo_world)"
  by (simp add: compress_jpeg_def prog_defs demo_jpeg_def module_globals_def)

text \<open>
  Claim C2 is about the quality that the search returns. The module as shipped returns
  none: at start quality 12 and a target that no encoding meets the call raises
  \<^verbatim>\<open>NameError\<close> at line 70, and no library, image, start quality, target or world makes
  \<^verbatim>\<open>compress_jpeg\<close> return a pair of bytes and quality.
\<close>

theorem compress_jpeg_returns_no_quality:
  "compress_jpeg module_globals demo_lib demo_jpeg 12 0 demo_world
     = (Inl (NameError ''BytesIO''), demo_world)
   \<and> (\<forall>L img quality target s r.
         fst (compress_jpeg module_globals L img quality target s) \<noteq> Inr r)"
proof -
  have "compress_jpeg module_globals demo_lib demo_jpeg 12 0 demo_world
          = (Inl (NameError ''BytesIO''), demo_world)"
    by (simp add: compress_jpeg_shipped demo_jpeg_def)
  moreover have "\<forall>L img quality target s r.
                   fst (compress_jpeg module_globals L img quality target s) \<noteq> Inr r"
    by (simp add: compress_jpeg_shipped split: sum.splits)
  ultimately show ?thesis by blast
qed

section \<open>Per-image pipeline\<close>

lemma image_open_ok:
  "files s (file_id s p) = Inr b \<Longrightarrow> decode L b = Inr img \<Longrightarrow>
     image_open L p s = (Inr img, s\<lparr>calls := calls s @ [Open p]\<rparr>)"
  by (simp add: image_open_def external_def)

lemma getsize_ok:
  "files s (file_id s p) = Inr b \<Longrightarrow>
     getsize p s = (Inr (int (length b)), s\<lparr>calls := calls s @ [GetSize p]\<rparr>)"
  by (simp add: getsize_def external_def)

lemma resize_image_files:
  "resize_image L img mw mh s = (r, s') \<Longrightarrow> files s' = files s"
  by (auto simp: resize_image_def prog_defs split: if_splits)

text \<open>The whole run on a readable input file whose size is within the target.\<close>

lemma skip_run:
  "files s (file_id s input_path) = Inr b \<Longrightarrow> max_file_size_mb cfg = Some mb \<Longrightarrow>
   of_nat (length b) \<le> mb * 1024 * 1024 \<Longrightarrow>
   compress_image G L cfg input_path output_path s =
     (case decode L b of
        Inl m \<Rightarrow> (Error m, s\<lparr>calls := calls s @ [Open input_path]\<rparr>)
      | Inr img \<Rightarrow>
          if file_id s input_path = file_id s output_path
          then (Error (str_exn (SameFileError input_path output_path)),
                s\<lparr>calls := calls s @ [Open input_path, GetSize input_path,
                                       Copy2 input_path output_path]\<rparr>)
          else (case write_error L output_path of
                  Some m \<Rightarrow> (Error m,
                     s\<lparr>calls := calls s @ [Open input_path, GetSize input_path,
                                            Copy2 input_path output_path]\<rparr>)
                | None \<Rightarrow> (Skipped (int (length b)) (int (length b)) 0 (format img),
                     s\<lparr>calls := calls s @ [Open input_path, GetSize input_path,
                                            Copy2 input_path output_path],
                       files := (files s)(file_id s output_path := Inr b)\<rparr>)))"
  by (auto simp: compress_image_def compress_image_body_def bind_prog_def image_open_def
      getsize_def external_def config_get_def ret_def calculate_target_size_def copy2_def Let_def
      split: sum.splits option.splits)

lemma skip_run_file_id:
  "files s (file_id s input_path) = Inr b \<Longrightarrow> max_file_size_mb cfg = Some mb \<Longrightarrow>
   of_nat (length b) \<le> mb * 1024 * 1024 \<Longrightarrow>
   file_id (snd (compress_image G L cfg input_path output_path s)) = file_id s"
  by (auto simp: skip_run split: sum.splits option.splits)

lemma skip_run_input:
  "files s (file_id s input_path) = Inr b \<Longrightarrow> max_file_size_mb cfg = Some mb \<Longrightarrow>
   of_nat (length b) \<le> mb * 1024 * 1024 \<Longrightarrow>
   files (snd (compress_image G L cfg input_path output_path s)) (file_id s input_path) = Inr b"
  by (auto simp: skip_run split: sum.splits option.splits)



text \<open>
  Claim C9. For an input file whose size is within the target, a second run of
  \<^verbatim>\<open>compress_image\<close> with the same configuration, started in the world the first run
  left, leaves the same bytes at the output path and returns the same result as the first;
  when the first run could decode and copy, those bytes are the input's.
\<close>

theorem skip_twice_same_output:
  "files s (file_id s input_path) = Inr b \<and> max_file_size_mb cfg = Some mb
   \<and> of_nat (length b) \<le> mb * 1024 * 1024 \<longrightarrow>
   files (snd (compress_image G L cfg input_path output_path
                 (snd (compress_image G L cfg input_path output_path s))))
      (file_id (snd (compress_image G L cfg input_path output_path
                 (snd (compress_image G L cfg input_path output_path s)))) output_path)
     = files (snd (compress_image G L cfg input_path output_path s))
         (file_id (snd (compress_image G L cfg input_path output_path s)) output_path)
   \<and> fst (compress_image G L cfg input_path output_path
                 (snd (compress_image G L cfg input_path output_path s)))
     = fst (compress_image G L cfg input_path output_path s)
   \<and> ((\<exists>img. decode L b = Inr img) \<and> file_id s input_path \<noteq> file_id s output_path
        \<and> write_error L output_path = None \<longrightarrow>
      files (snd (compress_image G L cfg input_path output_path s))
        (file_id (snd (compress_image G L cfg input_path output_path s)) output_path) = Inr b)"
proof (intro impI, elim conjE)
  assume f: "files s (file_id s input_path) = Inr b" and k: "max_file_size_mb cfg = Some mb"
    and u: "of_nat (length b) \<le> mb * 1024 * 1024"
  let ?s1 = "snd (compress_image G L cfg input_path output_path s)"
  let ?s2 = "snd (compress_image G L cfg input_path output_path ?s1)"
  have i1: "file_id ?s1 = file_id s" using f k u by (rule skip_run_file_id)
  have f1: "files ?s1 (file_id ?s1 input_path) = Inr b"
    unfolding i1 using f k u by (rule skip_run_input)
  have i2: "file_id ?s2 = file_id s" using skip_run_file_id[OF f1 k u] i1 by simp
  have "files ?s2 (file_id s output_path) = files ?s1 (file_id s output_path)
        \<and> fst (compress_image G L cfg input_path output_path ?s1)
          = fst (compress_image G L cfg input_path output_path s)
        \<and> ((\<exists>img. decode L b = Inr img) \<and> file_id s input_path \<noteq> file_id s output_path
             \<and> write_error L output_path = None \<longrightarrow>
           files ?s1 (file_id s output_path) = Inr b)"
    unfolding skip_run[OF f1 k u] i1
    unfolding skip_run[OF f k u]
    by (auto split: sum.splits option.splits)
  then show "files ?s2 (file_id ?s2 output_path) = files ?s1 (file_id ?s1 output_path)
        \<and> fst (compress_image G L cfg input_path output_path ?s1)
          = fst (compress_image G L cfg input_path output_path s)
        \<and> ((\<exists>img. decode L b = Inr img) \<and> file_id s input_path \<noteq> file_id s output_path
             \<and> write_error L output_path = None \<longrightarrow>
           files ?s1 (file_id ?s1 output_path) = Inr b)"
    unfolding i1 i2 .
qed

text \<open>
  Claim C6. \<^verbatim>\<open>compress_image\<close> always returns a result: whatever exception the body of
  the \<^verbatim>\<open>try\<close> raises comes back as \<open>Error\<close> with the message \<^verbatim>\<open>str(e)\<close>. In particular
  an unreadable input file, a decode failure, a failure of the resize, a failure of the
  encoder and a failure to write the output each give \<open>Error\<close> with that failure's message.
\<close>

theorem error_boundary:
  "(compress_image_body G L cfg input_path output_path s = (Inl e, s') \<longrightarrow>
      compress_image G L cfg input_path output_path s = (Error (str_exn e), s'))
   \<and> (files s (file_id s input_path) = Inl m \<longrightarrow>
        fst (compress_image G L cfg input_path output_path s) = Error m)
   \<and> (files s (file_id s input_path) = Inr b \<and> decode L b = Inl m \<longrightarrow>
        fst (compress_image G L cfg input_path output_path s) = Error m)
   \<and> (files s (file_id s input_path) = Inr b \<and> decode L b = Inr img \<and> max_file_size_mb cfg = Some mb
        \<and> mb * 1024 * 1024 < of_nat (length b) \<and> resize_enabled cfg = Some True
        \<and> max_width cfg = Some mw \<and> max_height cfg = Some mh
        \<and> \<not> (width img \<le> mw \<and> height img \<le> mh) \<and> thumbnail L img mw mh = Inl m \<longrightarrow>
        fst (compress_image G L cfg input_path output_path s) = Error m)
   \<and> (files s (file_id s input_path) = Inr b \<and> decode L b = Inr img \<and> max_file_size_mb cfg = Some mb
        \<and> mb * 1024 * 1024 < of_nat (length b) \<and> resize_enabled cfg = Some False
        \<and> format img \<notin> set [''JPEG'', ''JPG'', ''PNG'']
        \<and> encode L img (format img) None = Inl m \<longrightarrow>
        fst (compress_image G L cfg input_path output_path s) = Error m)
   \<and> (files s (file_id s input_path) = Inr b \<and> decode L b = Inr img \<and> max_file_size_mb cfg = Some mb
        \<and> mb * 1024 * 1024 < of_nat (length b) \<and> resize_enabled cfg = Some False
        \<and> format img \<notin> set [''JPEG'', ''JPG'', ''PNG'']
        \<and> encode L img (format img) None = Inr data
        \<and> write_error L output_path = Some m \<longrightarrow>
        fst (compress_image G L cfg input_path output_path s) = Error m)"
  by (auto simp: compress_image_def compress_image_body_def resize_image_def
      write_file_def prog_defs image_open_def getsize_def
      calculate_target_size_def Let_def)

section \<open>The unresolved name in the quality search\<close>

lemma jpeg_over_budget_error:
  "files s (file_id s input_path) = Inr b \<and> decode L b = Inr img \<and> format img \<in> {''JPEG'', ''JPG''}
   \<and> max_file_size_mb cfg = Some mb \<and> mb * 1024 * 1024 < of_nat (length b) \<longrightarrow>
   (\<exists>m. fst (compress_image module_globals L cfg input_path output_path s) = Error m)
   \<and> files (snd (compress_image module_globals L cfg input_path output_path s)) = files s"
proof (intro impI, elim conjE)
  assume f: "files s (file_id s input_path) = Inr b" and d: "decode L b = Inr img"
    and j: "format img \<in> {''JPEG'', ''JPG''}"
    and k: "max_file_size_mb cfg = Some mb" and o: "mb * 1024 * 1024 < of_nat (length b)"
  have jp: "\<And>i q t s0. \<exists>e s'. compress_jpeg module_globals L i q t s0 = (Inl e, s') \<and> files s' = files s0"
    by (rule compress_jpeg_shipped_Inl)
  have "\<exists>e s'. compress_image_body module_globals L cfg input_path output_path s = (Inl e, s')
          \<and> files s' = files s"
    using f d j k o
    by (auto simp: compress_image_body_def prog_defs image_open_ok getsize_ok
        calculate_target_size_def Let_def compress_jpeg_shipped resize_image_def
        split: option.splits sum.splits)
  then show "(\<exists>m. fst (compress_image module_globals L cfg input_path output_path s) = Error m)
   \<and> files (snd (compress_image module_globals L cfg input_path output_path s)) = files s"
    by (auto simp: compress_image_def)
qed

text \<open>
  Claim C3, as amended. In the module as shipped, every call of \<^verbatim>\<open>compress_jpeg\<close> raises
  before any encode: the name \<^verbatim>\<open>BytesIO\<close> is not bound, so the call raises \<^verbatim>\<open>NameError\<close>
  at line 70, unless the image is not RGB and its conversion at line 68 raises first, in
  which case that exception comes out. The only library call such a run can make is the
  conversion. Consequently \<^verbatim>\<open>compress_image\<close> on a JPEG or JPG input over the target
  returns \<open>Error\<close>, never \<open>Compressed\<close>, and writes no file.
\<close>

theorem compress_jpeg_shipped_raises_before_encode:
  "compress_jpeg module_globals L img quality target s =
     (if mode img = ''RGB'' then (Inl (NameError ''BytesIO''), s)
      else ((case convert L img ''RGB'' of
               Inl m \<Rightarrow> Inl (External m)
             | Inr rgb \<Rightarrow> Inl (NameError ''BytesIO'')),
            s\<lparr>calls := calls s @ [Convert ''RGB'']\<rparr>))
   \<and> (files s (file_id s input_path) = Inr b \<and> decode L b = Inr img'
        \<and> format img' \<in> {''JPEG'', ''JPG''}
        \<and> max_file_size_mb cfg = Some mb \<and> mb * 1024 * 1024 < of_nat (length b) \<longrightarrow>
      (\<exists>m. fst (compress_image module_globals L cfg input_path output_path s) = Error m)
      \<and> files (snd (compress_image module_globals L cfg input_path output_path s)) = files s)"
  using compress_jpeg_shipped[of L img quality target s]
    jpeg_over_budget_error[of s input_path b L img' cfg mb output_path]
  by blast

text \<open>
  Claim C3 as stated fails where it says that every call raises \<^verbatim>\<open>NameError\<close>: a CMYK
  image whose conversion to RGB fails makes the call raise the conversion's exception.
\<close>

theorem compress_jpeg_raises_conversion_error:
  "fst (compress_jpeg module_globals demo_lib demo_cmyk 85 1048576 demo_world)
     = Inl (External ''image file is truncated'')
   \<and> Inl (External ''image file is truncated'') \<noteq> (Inl (NameError ''BytesIO'') :: py_exn + bytes \<times> int)"
  by (simp add: compress_jpeg_def prog_defs demo_lib_def demo_cmyk_def module_globals_def)

section \<open>The savings division\<close>

lemma nzd_ret: "never_zero_div (ret x)"
  by (simp add: never_zero_div_def ret_def)

lemma nzd_raise: "e \<noteq> ZeroDivisionError \<Longrightarrow> never_zero_div (raise e)"
  by (simp add: never_zero_div_def raise_def)

lemma nzd_external: "never_zero_div (external c r)"
  by (simp add: never_zero_div_def external_def split: sum.splits)

lemma nzd_bind:
  "never_zero_div m \<Longrightarrow> (\<And>x. never_zero_div (f x)) \<Longrightarrow> never_zero_div (bind_prog m f)"
  by (auto simp: never_zero_div_def bind_prog_def split: prod.splits sum.splits)
     (metis fst_conv)+

lemma nzd_config_bind:
  "(\<And>x. v = Some x \<Longrightarrow> never_zero_div (f x)) \<Longrightarrow>
     never_zero_div (bind_prog (config_get v key) f)"
  by (cases v) (auto simp: never_zero_div_def bind_prog_def config_get_def raise_def ret_def)

lemma nzd_if:
  "(c \<Longrightarrow> never_zero_div a) \<Longrightarrow> (\<not> c \<Longrightarrow> never_zero_div b) \<Longrightarrow>
     never_zero_div (if c then a else b)"
  by simp

lemma nzd_case_prod: "(\<And>a b. never_zero_div (f a b)) \<Longrightarrow> never_zero_div (case_prod f p)"
  by (cases p) simp

lemma nzd_lookup_global: "never_zero_div (lookup_global G n)"
  by (simp add: lookup_global_def nzd_ret nzd_raise)

lemma nzd_save_image: "never_zero_div (save_image L img fmt q)"
  by (simp add: save_image_def nzd_external)

lemma nzd_image_open: "never_zero_div (image_open L p)"
  by (simp add: never_zero_div_def image_open_def external_def split: sum.splits)

lemma nzd_getsize: "never_zero_div (getsize p)"
  by (simp add: never_zero_div_def getsize_def external_def split: sum.splits)

lemma nzd_copy2: "never_zero_div (copy2 L src dst)"
  by (simp add: never_zero_div_def copy2_def Let_def split: sum.splits option.splits)

lemma nzd_write_file: "never_zero_div (write_file L p d)"
  by (simp add: never_zero_div_def write_file_def Let_def split: option.splits)

lemma nzd_resize_image: "never_zero_div (resize_image L img mw mh)"
  by (simp add: resize_image_def nzd_ret nzd_external)

lemma nzd_compress_png: "never_zero_div (compress_png L img q t)"
  unfolding compress_png_def
  by (intro nzd_bind nzd_if nzd_save_image nzd_ret nzd_external)

lemma jpeg_loop_no_zero_div:
  "fst (jpeg_loop G L img target buf q s) \<noteq> Inl ZeroDivisionError"
proof (induction G L img target buf q s rule: jpeg_loop.induct)
  case (1 G L img target temp_buffer current_quality s)
  show ?case
  proof (cases "of_nat (length temp_buffer) > target \<and> current_quality > 10")
    case False
    then show ?thesis by (auto simp: jpeg_loop.simps)
  next
    case True
    show ?thesis
    proof (cases "lookup_global G ''BytesIO'' s")
      case (Pair r s1)
      note lk = this
      show ?thesis
      proof (cases r)
        case (Inl e)
        with lk nzd_lookup_global[of G "''BytesIO''"] have "e \<noteq> ZeroDivisionError"
          by (auto simp: never_zero_div_def dest: spec[of _ s])
        with True lk Inl show ?thesis by (simp add: jpeg_loop.simps)
      next
        case (Inr u)
        show ?thesis
        proof (cases "save_image L img ''JPEG'' (Some (current_quality - 5)) s1")
          case (Pair r2 s2)
          note sv = this
          show ?thesis
          proof (cases r2)
            case (Inl e)
            with sv nzd_save_image[of L img "''JPEG''" "Some (current_quality - 5)"]
            have "e \<noteq> ZeroDivisionError"
              by (auto simp: never_zero_div_def dest: spec[of _ s1])
            with True lk \<open>r = Inr u\<close> sv Inl show ?thesis by (simp add: jpeg_loop.simps)
          next
            case (Inr buf')
            from "1.IH"[OF True] lk \<open>r = Inr u\<close> sv Inr
            have "fst (jpeg_loop G L img target buf' (current_quality - 5) s2)
                    \<noteq> Inl ZeroDivisionError"
              by simp
            with True lk \<open>r = Inr u\<close> sv Inr show ?thesis by (simp add: jpeg_loop.simps)
          qed
        qed
      qed
    qed
  qed
qed

lemma nzd_jpeg_loop: "never_zero_div (jpeg_loop G L img target buf q)"
  by (simp add: never_zero_div_def jpeg_loop_no_zero_div)

lemma nzd_compress_jpeg: "never_zero_div (compress_jpeg G L img q t)"
  unfolding compress_jpeg_def
  by (intro nzd_bind nzd_if nzd_save_image nzd_ret nzd_external nzd_lookup_global nzd_jpeg_loop)

lemma nzd_savings: "original \<noteq> 0 \<Longrightarrow> never_zero_div (savings original compressed)"
  by (simp add: savings_def nzd_ret)

lemma over_budget_positive:
  "(0::rat) \<le> mb \<Longrightarrow> \<not> of_int n \<le> calculate_target_size n mb \<Longrightarrow> n \<noteq> 0"
  by (auto simp: calculate_target_size_def)

lemma nzd_body:
  assumes "\<And>mb. max_file_size_mb cfg = Some mb \<Longrightarrow> 0 \<le> mb"
  shows "never_zero_div (compress_image_body G L cfg input_path output_path)"
  unfolding compress_image_body_def Let_def
  apply (rule nzd_bind[OF nzd_image_open])
  apply (rule nzd_bind[OF nzd_getsize])
  apply (rule nzd_config_bind)
  apply (rule nzd_if)
   apply (intro nzd_bind nzd_copy2 nzd_ret)
  apply (rule nzd_config_bind)
  apply (rule nzd_bind)
   apply (intro nzd_if nzd_config_bind nzd_resize_image nzd_ret)
  apply (rule nzd_bind)
   apply (intro nzd_if nzd_config_bind nzd_bind nzd_case_prod nzd_compress_jpeg
      nzd_compress_png nzd_save_image nzd_ret)
  apply (rule nzd_case_prod)
  apply (rule nzd_bind[OF nzd_write_file])
  apply (rule nzd_bind[OF nzd_getsize])
  apply (rule nzd_bind)
   apply (rule nzd_savings)
   apply (erule (1) over_budget_positive[OF assms])
  apply (rule nzd_ret)
  done

lemma compressed_inversion:
  "fst (compress_image G L cfg input_path output_path s) = Compressed os cs sv f f0 \<Longrightarrow>
     \<exists>b mb. files s (file_id s input_path) = Inr b \<and> os = int (length b)
        \<and> max_file_size_mb cfg = Some mb \<and> mb * 1024 * 1024 < of_int os
        \<and> os \<noteq> 0 \<and> sv = of_int (os - cs) / of_int os * 100"
  by (auto simp: compress_image_def compress_image_body_def bind_prog_def image_open_def
      getsize_def external_def config_get_def ret_def raise_def calculate_target_size_def
      savings_def Let_def
      split: prod.splits sum.splits option.splits if_splits)

text \<open>
  Claim C10, as amended. With a configured size that is not negative, the \<^verbatim>\<open>try\<close> body
  never raises \<^verbatim>\<open>ZeroDivisionError\<close>: a \<open>Compressed\<close> result is only produced for an
  original size above the target, hence positive, and its savings are the quotient of line
  150. A zero-byte input never reaches the division: if the library opens it and the copy
  succeeds, the result is \<open>Skipped\<close> with sizes 0 and savings 0; otherwise it is the
  \<open>Error\<close> of the open or of the copy.
\<close>

theorem savings_division_safe:
  "(\<forall>mb. max_file_size_mb cfg = Some mb \<longrightarrow> 0 \<le> mb) \<longrightarrow>
     fst (compress_image_body G L cfg input_path output_path s) \<noteq> Inl ZeroDivisionError
     \<and> (fst (compress_image G L cfg input_path output_path s) = Compressed os cs sv f f0 \<longrightarrow>
          0 < os \<and> sv = of_int (os - cs) / of_int os * 100)
     \<and> (files s (file_id s input_path) = Inr [] \<and> max_file_size_mb cfg \<noteq> None \<longrightarrow>
          fst (compress_image G L cfg input_path output_path s)
            = (case decode L [] of
                 Inl m \<Rightarrow> Error m
               | Inr img \<Rightarrow>
                   if file_id s input_path = file_id s output_path
                   then Error (str_exn (SameFileError input_path output_path))
                   else (case write_error L output_path of
                           Some m \<Rightarrow> Error m
                         | None \<Rightarrow> Skipped 0 0 0 (format img))))"
proof (intro impI)
  assume nn: "\<forall>mb. max_file_size_mb cfg = Some mb \<longrightarrow> 0 \<le> mb"
  have a: "fst (compress_image_body G L cfg input_path output_path s) \<noteq> Inl ZeroDivisionError"
    using nzd_body[of cfg G L input_path output_path] nn by (simp add: never_zero_div_def)
  have b: "fst (compress_image G L cfg input_path output_path s) = Compressed os cs sv f f0 \<longrightarrow>
          0 < os \<and> sv = of_int (os - cs) / of_int os * 100"
    by (auto dest!: compressed_inversion)
  have c: "files s (file_id s input_path) = Inr [] \<and> max_file_size_mb cfg \<noteq> None \<longrightarrow>
          fst (compress_image G L cfg input_path output_path s)
            = (case decode L [] of
                 Inl m \<Rightarrow> Error m
               | Inr img \<Rightarrow>
                   if file_id s input_path = file_id s output_path
                   then Error (str_exn (SameFileError input_path output_path))
                   else (case write_error L output_path of
                           Some m \<Rightarrow> Error m
                         | None \<Rightarrow> Skipped 0 0 0 (format img)))"
  proof (intro impI, elim conjE)
    assume f: "files s (file_id s input_path) = Inr []" and "max_file_size_mb cfg \<noteq> None"
    then obtain mb where k: "max_file_size_mb cfg = Some mb" by auto
    with nn have "0 \<le> mb" by simp
    then have u: "of_nat (length ([] :: bytes)) \<le> mb * 1024 * 1024" by simp
    show "fst (compress_image G L cfg input_path output_path s)
            = (case decode L [] of
                 Inl m \<Rightarrow> Error m
               | Inr img \<Rightarrow>
                   if file_id s input_path = file_id s output_path
                   then Error (str_exn (SameFileError input_path output_path))
                   else (case write_error L output_path of
                           Some m \<Rightarrow> Error m
                         | None \<Rightarrow> Skipped 0 0 0 (format img)))"
      unfolding skip_run[OF f k u] by (auto split: sum.splits option.splits)
  qed
  from a b c show "fst (compress_image_body G L cfg input_path output_path s) \<noteq> Inl ZeroDivisionError
     \<and> (fst (compress_image G L cfg input_path output_path s) = Compressed os cs sv f f0 \<longrightarrow>
          0 < os \<and> sv = of_int (os - cs) / of_int os * 100)
     \<and> (files s (file_id s input_path) = Inr [] \<and> max_file_size_mb cfg \<noteq> None \<longrightarrow>
          fst (compress_image G L cfg input_path output_path s)
            = (case decode L [] of
                 Inl m \<Rightarrow> Error m
               | Inr img \<Rightarrow>
                   if file_id s input_path = file_id s output_path
                   then Error (str_exn (SameFileError input_path output_path))
                   else (case write_error L output_path of
                           Some m \<Rightarrow> Error m
                         | None \<Rightarrow> Skipped 0 0 0 (format img))))"
    by blast
qed

text \<open>
  Claim C10 as stated fails twice. A zero-byte file that the library cannot open is
  \<open>Error\<close>, not \<open>Skipped\<close>. And the target is not always at least 0: with a negative
  configured size and a library that opens the empty file, the run is over budget at
  original size 0 and line 150 raises \<^verbatim>\<open>ZeroDivisionError\<close>.
\<close>

theorem zero_byte_file_not_skipped:
  "files demo_world (file_id demo_world ''in/empty.png'') = Inr []
   \<and> fst (compress_image module_globals demo_lib (demo_config 1 85) ''in/empty.png''
            ''out/empty.png'' demo_world) = Error ''cannot identify image file''
   \<and> fst (compress_image_body module_globals raw_lib (demo_config (- 1) 85) ''in/empty.png''
            ''out/empty.png'' demo_world) = Inl ZeroDivisionError"
  by (simp add: run_defs demo_defs raw_lib_def)

section \<open>The pipeline on the sample library\<close>


theorem skip_twice_same_output_witness:
  "files (snd (compress_image module_globals demo_lib (demo_config 1 85) ''in/a.png''
           ''out/a.png''
           (snd (compress_image module_globals demo_lib (demo_config 1 85) ''in/a.png''
                  ''out/a.png'' demo_world))))
      (file_id (snd (compress_image module_globals demo_lib (demo_config 1 85) ''in/a.png''
           ''out/a.png''
           (snd (compress_image module_globals demo_lib (demo_config 1 85) ''in/a.png''
                  ''out/a.png'' demo_world)))) ''out/a.png'')
     = files (snd (compress_image module_globals demo_lib (demo_config 1 85) ''in/a.png''
                    ''out/a.png'' demo_world))
         (file_id (snd (compress_image module_globals demo_lib (demo_config 1 85) ''in/a.png''
                    ''out/a.png'' demo_world)) ''out/a.png'')
   \<and> files (snd (compress_image module_globals demo_lib (demo_config 1 85) ''in/a.png''
                   ''out/a.png'' demo_world))
         (file_id (snd (compress_image module_globals demo_lib (demo_config 1 85) ''in/a.png''
                    ''out/a.png'' demo_world)) ''out/a.png'')
       = Inr [0x89, 80, 78, 71, 1, 2]"
proof -
  have h: "files demo_world (file_id demo_world ''in/a.png'') = Inr [0x89, 80, 78, 71, 1, 2]
           \<and> max_file_size_mb (demo_config 1 85) = Some 1
           \<and> of_nat (length [0x89, 80, 78, 71, 1, 2 :: 8 word]) \<le> (1 :: rat) * 1024 * 1024"
    by (simp add: demo_defs)
  have g: "(\<exists>img. decode demo_lib [0x89, 80, 78, 71, 1, 2] = Inr img)
           \<and> file_id demo_world ''in/a.png'' \<noteq> file_id demo_world ''out/a.png''
           \<and> write_error demo_lib ''out/a.png'' = None"
    by (simp add: demo_defs)
  from skip_twice_same_output[where s = demo_world and input_path = "''in/a.png''"
      and b = "[0x89, 80, 78, 71, 1, 2]" and L = demo_lib
      and cfg = "demo_config 1 85" and mb = 1 and output_path = "''out/a.png''"
      and G = module_globals, THEN mp, OF h] g
  show ?thesis by blast
qed

theorem error_boundary_witness:
  "compress_image module_globals demo_lib (demo_config 1 85) ''in/none.png'' ''out/a.png''
     demo_world
     = (Error ''No such file or directory'', demo_world\<lparr>calls := [Open ''in/none.png'']\<rparr>)
   \<and> fst (compress_image module_globals demo_lib (demo_config 1 85) ''in/empty.png''
            ''out/a.png'' demo_world) = Error ''cannot identify image file''
   \<and> fst (compress_image module_globals demo_lib
            ((demo_config (1 / 1048576) 85)\<lparr>resize_enabled := Some True, max_width := Some 0\<rparr>)
            ''in/c.bmp'' ''out/c.bmp'' demo_world) = Error ''height and width must be > 0''
   \<and> fst (compress_image module_globals demo_lib (demo_config (1 / 1048576) 85) ''in/d.tif''
            ''out/d.tif'' demo_world) = Error ''encoder error''
   \<and> fst (compress_image module_globals demo_lib (demo_config (1 / 1048576) 85) ''in/c.bmp''
            ''locked/a.png'' demo_world) = Error ''Permission denied''"
proof -
  let ?bmp = "\<lparr>width = 4, height = 3, mode = ''RGB'', format = ''BMP'', raster = [66, 77, 7]\<rparr>"
  let ?tif = "\<lparr>width = 4, height = 3, mode = ''RGB'', format = ''TIFF'', raster = [73, 73, 42, 0]\<rparr>"
  let ?cfg = "demo_config (1 / 1048576) 85"
  let ?rcfg = "?cfg\<lparr>resize_enabled := Some True, max_width := Some 0\<rparr>"
  have a0: "compress_image_body module_globals demo_lib (demo_config 1 85) ''in/none.png''
              ''out/a.png'' demo_world
            = (Inl (External ''No such file or directory''),
               demo_world\<lparr>calls := [Open ''in/none.png'']\<rparr>)"
    by (simp add: compress_image_body_def bind_prog_def image_open_def external_def
        demo_world_def)
  from error_boundary[where G = module_globals and L = demo_lib and cfg = "demo_config 1 85"
      and input_path = "''in/none.png''" and output_path = "''out/a.png''" and s = demo_world
      and e = "External ''No such file or directory''"
      and s' = "demo_world\<lparr>calls := [Open ''in/none.png'']\<rparr>", THEN conjunct1, THEN mp, OF a0]
  have a: "compress_image module_globals demo_lib (demo_config 1 85) ''in/none.png''
             ''out/a.png'' demo_world
           = (Error ''No such file or directory'', demo_world\<lparr>calls := [Open ''in/none.png'']\<rparr>)"
    by simp
  have b0: "files demo_world (file_id demo_world ''in/empty.png'') = Inr []
            \<and> decode demo_lib [] = Inl ''cannot identify image file''"
    by (simp add: demo_defs)
  from error_boundary[where G = module_globals and L = demo_lib and cfg = "demo_config 1 85"
      and input_path = "''in/empty.png''" and output_path = "''out/a.png''" and s = demo_world
      and b = "[]" and m = "''cannot identify image file''",
      THEN conjunct2, THEN conjunct2, THEN conjunct1, THEN mp, OF b0]
  have b: "fst (compress_image module_globals demo_lib (demo_config 1 85) ''in/empty.png''
                  ''out/a.png'' demo_world) = Error ''cannot identify image file''" .
  have c0: "files demo_world (file_id demo_world ''in/c.bmp'') = Inr [0x42, 0x4D, 7]
            \<and> decode demo_lib [0x42, 0x4D, 7] = Inr ?bmp
            \<and> max_file_size_mb ?rcfg = Some (1 / 1048576)
            \<and> (1 / 1048576 :: rat) * 1024 * 1024 < of_nat (length [0x42, 0x4D, 7 :: 8 word])
            \<and> resize_enabled ?rcfg = Some True
            \<and> max_width ?rcfg = Some 0 \<and> max_height ?rcfg = Some 1080
            \<and> \<not> (width ?bmp \<le> 0 \<and> height ?bmp \<le> 1080)
            \<and> thumbnail demo_lib ?bmp 0 1080 = Inl ''height and width must be > 0''"
    by (simp add: demo_defs thumbnail_model_def)
  from error_boundary[where G = module_globals and L = demo_lib and cfg = ?rcfg
      and input_path = "''in/c.bmp''" and output_path = "''out/c.bmp''" and s = demo_world
      and b = "[0x42, 0x4D, 7]" and img = ?bmp and mb = "1 / 1048576" and mw = 0 and mh = 1080
      and m = "''height and width must be > 0''",
      THEN conjunct2, THEN conjunct2, THEN conjunct2, THEN conjunct1, THEN mp, OF c0]
  have c: "fst (compress_image module_globals demo_lib ?rcfg ''in/c.bmp'' ''out/c.bmp''
                  demo_world) = Error ''height and width must be > 0''" .
  have d0: "files demo_world (file_id demo_world ''in/d.tif'') = Inr [0x49, 0x49, 42, 0]
            \<and> decode demo_lib [0x49, 0x49, 42, 0] = Inr ?tif
            \<and> max_file_size_mb ?cfg = Some (1 / 1048576)
            \<and> (1 / 1048576 :: rat) * 1024 * 1024 < of_nat (length [0x49, 0x49, 42, 0 :: 8 word])
            \<and> resize_enabled ?cfg = Some False
            \<and> format ?tif \<notin> set [''JPEG'', ''JPG'', ''PNG'']
            \<and> encode demo_lib ?tif (format ?tif) None = Inl ''encoder error''"
    by (simp add: demo_defs)
  from error_boundary[where G = module_globals and L = demo_lib and cfg = ?cfg
      and input_path = "''in/d.tif''" and output_path = "''out/d.tif''" and s = demo_world
      and b = "[0x49, 0x49, 42, 0]" and img = ?tif and mb = "1 / 1048576"
      and m = "''encoder error''",
      THEN conjunct2, THEN conjunct2, THEN conjunct2, THEN conjunct2, THEN conjunct1,
      THEN mp, OF d0]
  have d: "fst (compress_image module_globals demo_lib ?cfg ''in/d.tif'' ''out/d.tif''
                  demo_world) = Error ''encoder error''" .
  have e0: "files demo_world (file_id demo_world ''in/c.bmp'') = Inr [0x42, 0x4D, 7]
            \<and> decode demo_lib [0x42, 0x4D, 7] = Inr ?bmp
            \<and> max_file_size_mb ?cfg = Some (1 / 1048576)
            \<and> (1 / 1048576 :: rat) * 1024 * 1024 < of_nat (length [0x42, 0x4D, 7 :: 8 word])
            \<and> resize_enabled ?cfg = Some False
            \<and> format ?bmp \<notin> set [''JPEG'', ''JPG'', ''PNG'']
            \<and> encode demo_lib ?bmp (format ?bmp) None = Inr [66, 77, 7]
            \<and> write_error demo_lib ''locked/a.png'' = Some ''Permission denied''"
    by (simp add: demo_defs)
  from error_boundary[where G = module_globals and L = demo_lib and cfg = ?cfg
      and input_path = "''in/c.bmp''" and output_path = "''locked/a.png''" and s = demo_world
      and b = "[0x42, 0x4D, 7]" and img = ?bmp and mb = "1 / 1048576"
      and data = "[66, 77, 7]" and m = "''Permission denied''",
      THEN conjunct2, THEN conjunct2, THEN conjunct2, THEN conjunct2, THEN conjunct2,
      THEN mp, OF e0]
  have e: "fst (compress_image module_globals demo_lib ?cfg ''in/c.bmp'' ''locked/a.png''
                  demo_world) = Error ''Permission denied''" .
  from a b c d e show ?thesis by blast
qed

theorem compress_jpeg_shipped_raises_before_encode_witness:
  "compress_jpeg module_globals demo_lib demo_jpeg 85 5 demo_world
     = (Inl (NameError ''BytesIO''), demo_world)
   \<and> (\<exists>m. fst (compress_image module_globals demo_lib (demo_config (3 / 1048576) 85)
                 ''in/b.jpg'' ''out/b.jpg'' demo_world) = Error m)
   \<and> files (snd (compress_image module_globals demo_lib (demo_config (3 / 1048576) 85)
                   ''in/b.jpg'' ''out/b.jpg'' demo_world)) = files demo_world"
proof -
  have h: "files demo_world (file_id demo_world ''in/b.jpg'') = Inr [0xFF, 0xD8, 0xFF, 0xE0]
           \<and> decode demo_lib [0xFF, 0xD8, 0xFF, 0xE0] = Inr demo_jpeg
           \<and> format demo_jpeg \<in> {''JPEG'', ''JPG''}
           \<and> max_file_size_mb (demo_config (3 / 1048576) 85) = Some (3 / 1048576)
           \<and> (3 / 1048576 :: rat) * 1024 * 1024
               < of_nat (length [0xFF, 0xD8, 0xFF, 0xE0 :: 8 word])"
    by (simp add: demo_defs demo_jpeg_def)
  have m: "mode demo_jpeg = ''RGB''" by (simp add: demo_jpeg_def)
  note t = compress_jpeg_shipped_raises_before_encode[where L = demo_lib and img = demo_jpeg
      and quality = 85 and target = 5 and s = demo_world and input_path = "''in/b.jpg''"
      and b = "[0xFF, 0xD8, 0xFF, 0xE0]" and img' = demo_jpeg
      and cfg = "demo_config (3 / 1048576) 85" and mb = "3 / 1048576"
      and output_path = "''out/b.jpg''"]
  from t[THEN conjunct1] m
  have a: "compress_jpeg module_globals demo_lib demo_jpeg 85 5 demo_world
             = (Inl (NameError ''BytesIO''), demo_world)"
    by simp
  from t[THEN conjunct2, THEN mp, OF h] a show ?thesis by blast
qed

theorem savings_division_safe_witness:
  "fst (compress_image_body module_globals demo_lib (demo_config (5 / 1048576) 30) ''in/a.png''
          ''out/a.png'' demo_world) \<noteq> Inl ZeroDivisionError
   \<and> fst (compress_image module_globals demo_lib (demo_config (5 / 1048576) 30) ''in/a.png''
            ''out/a.png'' demo_world) = Compressed 6 4 (100 / 3) ''JPEG'' ''PNG''
   \<and> (0 :: int) < 6 \<and> (100 / 3 :: rat) = of_int (6 - 4) / of_int 6 * 100
   \<and> fst (compress_image module_globals demo_lib (demo_config 1 85) ''in/empty.png''
            ''out/empty.png'' demo_world) = Error ''cannot identify image file''
   \<and> fst (compress_image module_globals raw_lib (demo_config 1 85) ''in/empty.png''
            ''out/empty.png'' demo_world) = Skipped 0 0 0 ''RAW''"
proof -
  have h: "\<forall>mb. max_file_size_mb (demo_config (5 / 1048576) 30) = Some mb \<longrightarrow> 0 \<le> mb"
    by (simp add: demo_config_def)
  have h1: "\<forall>mb. max_file_size_mb (demo_config 1 85) = Some mb \<longrightarrow> 0 \<le> mb"
    by (simp add: demo_config_def)
  have e: "files demo_world (file_id demo_world ''in/empty.png'') = Inr []
           \<and> max_file_size_mb (demo_config 1 85) \<noteq> None"
    by (simp add: demo_defs)
  have r: "fst (compress_image module_globals demo_lib (demo_config (5 / 1048576) 30) ''in/a.png''
            ''out/a.png'' demo_world) = Compressed 6 4 (100 / 3) ''JPEG'' ''PNG''"
    by (simp add: run_defs demo_defs)
  note t = savings_division_safe[where cfg = "demo_config (5 / 1048576) 30"
      and G = module_globals and L = demo_lib and input_path = "''in/a.png''"
      and output_path = "''out/a.png''" and s = demo_world and os = 6 and cs = 4
      and sv = "100 / 3" and f = "''JPEG''" and ?f0.0 = "''PNG''", THEN mp, OF h]
  from savings_division_safe[where cfg = "demo_config 1 85"
      and G = module_globals and L = demo_lib and input_path = "''in/empty.png''"
      and output_path = "''out/empty.png''" and s = demo_world, THEN mp, OF h1,
      THEN conjunct2, THEN conjunct2, THEN mp, OF e]
  have z1: "fst (compress_image module_globals demo_lib (demo_config 1 85) ''in/empty.png''
            ''out/empty.png'' demo_world) = Error ''cannot identify image file''"
    by (simp add: demo_defs)
  from savings_division_safe[where cfg = "demo_config 1 85"
      and G = module_globals and L = raw_lib and input_path = "''in/empty.png''"
      and output_path = "''out/empty.png''" and s = demo_world, THEN mp, OF h1,
      THEN conjunct2, THEN conjunct2, THEN mp, OF e]
  have z2: "fst (compress_image module_globals raw_lib (demo_config 1 85) ''in/empty.png''
            ''out/empty.png'' demo_world) = Skipped 0 0 0 ''RAW''"
    by (simp add: demo_defs raw_lib_def)
  from t[THEN conjunct1] t[THEN conjunct2, THEN conjunct1, THEN mp, OF r] r z1 z2
  show ?thesis by blast
qed

end
